theory Spec2Isabelle
  imports Complex_Main
begin

section \<open>Property correlations of water and aqueous NaCl (src/props.c)\<close>

text \<open>
  The correlations of \<^verbatim>\<open>props.c\<close> are embedded function by function. The solver's
  number type \<^verbatim>\<open>real\<close> comes from \<^verbatim>\<open>udf.h\<close>, which is not part of the sources. It
  is taken first as the type of real numbers: the statements about these definitions are
  about the formulas in exact arithmetic and say nothing about rounding. Two properties,
  the strict growth of the molality and the exact sum of two mole fractions, depend on the
  rounding; for them \<^verbatim>\<open>Convert_w2m\<close> and \<^verbatim>\<open>ConvertX\<close> are embedded a second time, with
  \<^verbatim>\<open>real\<close> as the IEEE binary64 format (the C type \<^verbatim>\<open>double\<close>, which is also the type of
  the literals of the source) and every operation rounded to nearest, ties to even.

  Exact arithmetic has no value for a quotient with divisor zero nor for the square root
  of a negative number (the C program yields an infinity or a NaN there and carries on).
  Such a result is the value \<open>Inl DomainError\<close>. Reading outside an array is
  \<open>Inl OutOfBounds\<close>, and a cell that was never written holds \<open>Inl Uninitialised\<close>.
\<close>

datatype error = DomainError | OutOfBounds | Uninitialised

definition fdiv :: "real \<Rightarrow> real \<Rightarrow> error + real" where
  "fdiv a b = (if b = 0 then Inl DomainError else Inr (a / b))"

definition fsqrt :: "real \<Rightarrow> error + real" where
  "fsqrt x = (if x < 0 then Inl DomainError else Inr (sqrt x))"

text \<open>
  \<^verbatim>\<open>pow(x, i)\<close>: every call of the source has an exponent that is a loop counter or the
  literal \<^verbatim>\<open>2.\<close>, so the exponent is a natural number; \<^verbatim>\<open>pow(x, 0)\<close> is 1 for every
  \<^verbatim>\<open>x\<close>, as \<open>x ^ 0\<close> is.
\<close>

definition pow :: "real \<Rightarrow> nat \<Rightarrow> real" where
  "pow x n = x ^ n"

definition bind_err :: "error + 'a \<Rightarrow> ('a \<Rightarrow> error + 'b) \<Rightarrow> error + 'b" where
  "bind_err r f = (case r of Inl e \<Rightarrow> Inl e | Inr v \<Rightarrow> f v)"

definition arr_get :: "'a list \<Rightarrow> int \<Rightarrow> error + 'a" where
  "arr_get xs i = (if 0 \<le> i \<and> i < int (length xs) then Inr (xs ! nat i) else Inl OutOfBounds)"

definition arr_set :: "'a list \<Rightarrow> int \<Rightarrow> 'a \<Rightarrow> error + 'a list" where
  "arr_set xs i v =
     (if 0 \<le> i \<and> i < int (length xs) then Inr (xs[nat i := v]) else Inl OutOfBounds)"

subsection \<open>The diagnostic channel\<close>

text \<open>
  \<^verbatim>\<open>Message\<close> is the host's printing routine. A call is recorded as one entry of a log,
  in the order of the calls: the entry names the format string and carries its argument.
\<close>

datatype message =
    Wrong_opt_ThermCond_Maxwell
  | Warning_solubility_range real
  | Warning_thermcond_temperature_range real
  | Warning_thermcond_molality_range real

subsection \<open>\<^verbatim>\<open>psat_h2o\<close>\<close>

definition PSAT_A :: real where "PSAT_A = 0.01"
definition PSAT_TP :: real where "PSAT_TP = 338.15"
definition C_LOOP :: nat where "C_LOOP = 8"
definition H2O_PC :: real where "H2O_PC = 22.089 * 10 ^ 6"
definition H2O_TC :: real where "H2O_TC = 647.286"

definition psat_constants :: "real list" where
  "psat_constants =
     [- 7.4192420, 2.97221 / 10, - 1.155286 / 10, 8.68563 / 10 ^ 3,
      1.094098 / 10 ^ 3, - 4.39993 / 10 ^ 3, 2.520658 / 10 ^ 3, - 5.218684 / 10 ^ 4]"

text \<open>The \<^verbatim>\<open>while (i < C_LOOP)\<close> loop, with its two variables \<^verbatim>\<open>i\<close> and \<^verbatim>\<open>sum1\<close>.\<close>

function psat_loop :: "real \<Rightarrow> nat \<Rightarrow> real \<Rightarrow> real" where
  "psat_loop var1 i sum1 =
     (if i < C_LOOP
      then psat_loop var1 (Suc i) (sum1 + psat_constants ! i * pow var1 i)
      else sum1)"
  by pat_completeness auto
termination
  by (relation "measure (\<lambda>(var1, i, sum1). C_LOOP - i)") auto

declare psat_loop.simps [simp del]

definition psat_h2o :: "real \<Rightarrow> error + real" where
  "psat_h2o tsat =
     (let var1 = PSAT_A * (tsat - PSAT_TP);
          sum1 = psat_loop var1 0 0.0
      in bind_err (fdiv H2O_TC tsat) (\<lambda>q.
           let ans1 = sum1 * (q - 1.0);
               psat = H2O_PC * exp ans1
           in Inr psat))"

subsection \<open>\<^verbatim>\<open>ThermCond_Maxwell\<close>\<close>

text \<open>
  The header \<^verbatim>\<open>consts.h\<close> is not part of the sources. The values of its macros, the
  phase indices \<^verbatim>\<open>GAS\<close> and \<^verbatim>\<open>SOLID\<close> and the material indices \<^verbatim>\<open>PVDF\<close>,
  \<^verbatim>\<open>PTFE\<close>, \<^verbatim>\<open>PP\<close> and \<^verbatim>\<open>PES\<close>, are parameters of the model.
\<close>

record consts_h =
  GAS :: int
  SOLID :: int
  PVDF :: int
  PTFE :: int
  PP :: int
  PES :: int

definition Maxwell_A :: "real list" where
  "Maxwell_A = [5.769, 5.769, 12.5, 4.167]"

definition Maxwell_B :: "real list" where
  "Maxwell_B = [0.9144, 8.914, - 23.51, 1.452]"

text \<open>The two assignments to \<^verbatim>\<open>kappa[GAS]\<close> (lines 52 and 53), in the order of the source.\<close>

definition kappa_gas_Jonsson :: "real \<Rightarrow> error + real" where
  "kappa_gas_Jonsson temp = bind_err (fsqrt temp) (\<lambda>s. Inr (1.5 / 10 ^ 3 * s))"

definition kappa_gas_Bahmanyar :: "real \<Rightarrow> error + real" where
  "kappa_gas_Bahmanyar temp = Inr (2.72 / 10 ^ 3 + 7.77 / 10 ^ 5 * temp)"

text \<open>
  The \<^verbatim>\<open>switch (opt)\<close>: it takes the current value of \<^verbatim>\<open>i\<close> and gives the new one
  with the messages printed. The \<^verbatim>\<open>default\<close> branch prints and leaves \<^verbatim>\<open>i\<close> alone.
\<close>

definition Maxwell_switch :: "consts_h \<Rightarrow> int \<Rightarrow> int \<Rightarrow> int \<times> message list" where
  "Maxwell_switch c opt i =
     (if opt = 0 then (PVDF c, [])
      else if opt = 1 then (PTFE c, [])
      else if opt = 2 then (PP c, [])
      else if opt = 3 then (PES c, [])
      else (i, [Wrong_opt_ThermCond_Maxwell]))"

definition kappa_read :: "(error + real) list \<Rightarrow> int \<Rightarrow> error + real" where
  "kappa_read kappa k = bind_err (arr_get kappa k) (\<lambda>cell. cell)"

text \<open>Lines 61 to 63: the solid conductivity, the contrast factor and the mixing rule.\<close>

definition Maxwell_mix ::
  "consts_h \<Rightarrow> real \<Rightarrow> real \<Rightarrow> int \<Rightarrow> (error + real) list \<Rightarrow> error + real" where
  "Maxwell_mix c temp porosity i kappa =
     bind_err (arr_get Maxwell_A i) (\<lambda>a.
     bind_err (arr_get Maxwell_B i) (\<lambda>b.
     bind_err (arr_set kappa (SOLID c) (Inr (a * (1 / 10 ^ 4) * temp + b * (1 / 10 ^ 2)))) (\<lambda>kappa.
     bind_err (kappa_read kappa (SOLID c)) (\<lambda>ks.
     bind_err (kappa_read kappa (GAS c)) (\<lambda>kg.
     bind_err (fdiv (ks - kg) (ks + 2 * kg)) (\<lambda>beta.
     fdiv (kg * (1 + 2 * beta * (1 - porosity))) (1 - beta * (1 - porosity))))))))"

definition ThermCond_Maxwell ::
  "consts_h \<Rightarrow> real \<Rightarrow> real \<Rightarrow> int \<Rightarrow> (error + real) \<times> message list" where
  "ThermCond_Maxwell c temp porosity opt =
     (let kappa = [Inl Uninitialised, Inl Uninitialised];
          i = 0
      in case arr_set kappa (GAS c) (kappa_gas_Jonsson temp) of
           Inl e \<Rightarrow> (Inl e, [])
         | Inr kappa \<Rightarrow>
             (case arr_set kappa (GAS c) (kappa_gas_Bahmanyar temp) of
                Inl e \<Rightarrow> (Inl e, [])
              | Inr kappa \<Rightarrow>
                  (let (i, msgs) = Maxwell_switch c opt i
                   in (Maxwell_mix c temp porosity i kappa, msgs))))"

text \<open>
  The variant of the specification's design note: the same function with line 52, the
  first assignment to \<^verbatim>\<open>kappa[GAS]\<close>, removed.
\<close>

definition ThermCond_Maxwell_second_formula_only ::
  "consts_h \<Rightarrow> real \<Rightarrow> real \<Rightarrow> int \<Rightarrow> (error + real) \<times> message list" where
  "ThermCond_Maxwell_second_formula_only c temp porosity opt =
     (let kappa = [Inl Uninitialised, Inl Uninitialised];
          i = 0
      in case arr_set kappa (GAS c) (kappa_gas_Bahmanyar temp) of
           Inl e \<Rightarrow> (Inl e, [])
         | Inr kappa \<Rightarrow>
             (let (i, msgs) = Maxwell_switch c opt i
              in (Maxwell_mix c temp porosity i kappa, msgs)))"

text \<open>
  The correlation in the words of the specification: the mixing rule of the Maxwell model
  with its contrast factor, and the conductivity it gives for row \<open>k\<close> of the table of
  solid-phase coefficients with the gas conductivity linear in the temperature.
\<close>

definition Maxwell_rule :: "real \<Rightarrow> real \<Rightarrow> real \<Rightarrow> error + real" where
  "Maxwell_rule kappa_gas kappa_solid porosity =
     bind_err (fdiv (kappa_solid - kappa_gas) (kappa_solid + 2 * kappa_gas)) (\<lambda>beta.
     fdiv (kappa_gas * (1 + 2 * beta * (1 - porosity))) (1 - beta * (1 - porosity)))"

definition Maxwell_of_row :: "nat \<Rightarrow> real \<Rightarrow> real \<Rightarrow> error + real" where
  "Maxwell_of_row k temp porosity =
     Maxwell_rule (2.72 / 10 ^ 3 + 7.77 / 10 ^ 5 * temp)
       (Maxwell_A ! k * (1 / 10 ^ 4) * temp + Maxwell_B ! k * (1 / 10 ^ 2)) porosity"

text \<open>The phase indices address the two cells of \<^verbatim>\<open>kappa[2]\<close> and differ.\<close>

definition phases_ok :: "consts_h \<Rightarrow> bool" where
  "phases_ok c = (0 \<le> GAS c \<and> GAS c < 2 \<and> 0 \<le> SOLID c \<and> SOLID c < 2 \<and> GAS c \<noteq> SOLID c)"

definition consts0 :: consts_h where
  "consts0 = \<lparr>GAS = 0, SOLID = 1, PVDF = 0, PTFE = 1, PP = 2, PES = 3\<rparr>"

subsection \<open>\<^verbatim>\<open>SatConc\<close>\<close>

definition SatConc_A :: "real list" where
  "SatConc_A = [0.2628, 62.75 / 10 ^ 6, 1.084 / 10 ^ 6]"

function SatConc_loop :: "real \<Rightarrow> nat \<Rightarrow> real \<Rightarrow> real" where
  "SatConc_loop temp i w_sat =
     (if i < 3 then SatConc_loop temp (Suc i) (w_sat + SatConc_A ! i * pow temp i)
      else w_sat)"
  by pat_completeness auto
termination
  by (relation "measure (\<lambda>(temp, i, w_sat). 3 - i)") auto

declare SatConc_loop.simps [simp del]

text \<open>The result is the value returned together with the messages printed.\<close>

definition SatConc :: "real \<Rightarrow> real \<times> message list" where
  "SatConc t =
     (let temp = t - 273.15;
          msgs = (if t < 0 \<or> t > 450 then [Warning_solubility_range t] else []);
          w_sat = SatConc_loop temp 0 0
      in (w_sat, msgs))"

subsection \<open>\<^verbatim>\<open>Convert_w2m\<close>\<close>

definition Convert_w2m :: "real \<Rightarrow> error + real" where
  "Convert_w2m w =
     bind_err (fdiv w (1 - w)) (\<lambda>q.
     bind_err (fdiv q 58.4428) (\<lambda>q.
     Inr (q * 1000)))"

subsection \<open>\<^verbatim>\<open>ThermCond_aqNaCl\<close>\<close>

definition aqNaCl_a :: "real list list" where
  "aqNaCl_a =
     [[0.5621, 0.00199, - 8.6 / 10 ^ 6],
      [- 0.01394, 0.000294, - 2.3 / 10 ^ 6],
      [0.00177, - 6.3 / 10 ^ 5, 4.5 / 10 ^ 7]]"

text \<open>The inner loop over \<^verbatim>\<open>j\<close> updates \<^verbatim>\<open>sum[i]\<close>; the array \<^verbatim>\<open>sum\<close> is \<open>sum_arr\<close> here.\<close>

function aqNaCl_inner :: "real \<Rightarrow> nat \<Rightarrow> nat \<Rightarrow> real list \<Rightarrow> real list" where
  "aqNaCl_inner T i j sum_arr =
     (if j < 3
      then aqNaCl_inner T i (Suc j)
             (sum_arr[i := sum_arr ! i + aqNaCl_a ! i ! j * pow (T - 273.15) j])
      else sum_arr)"
  by pat_completeness auto
termination
  by (relation "measure (\<lambda>(T, i, j, sum_arr). 3 - j)") auto

declare aqNaCl_inner.simps [simp del]

function aqNaCl_outer :: "real \<Rightarrow> real \<Rightarrow> nat \<Rightarrow> real list \<Rightarrow> real \<Rightarrow> real" where
  "aqNaCl_outer T m i sum_arr lambda =
     (if i < 3
      then (let sum_arr = aqNaCl_inner T i 0 sum_arr
            in aqNaCl_outer T m (Suc i) sum_arr (lambda + sum_arr ! i * pow m i))
      else lambda)"
  by pat_completeness auto
termination
  by (relation "measure (\<lambda>(T, m, i, sum_arr, lambda). 3 - i)") auto

declare aqNaCl_outer.simps [simp del]

text \<open>
  The global \<^verbatim>\<open>id_message\<close> is the first argument. The messages of the block under
  \<^verbatim>\<open>id_message < 2\<close>, given whether \<^verbatim>\<open>m <= 6.0\<close> holds and the molality to print;
  where the molality has no finite value (mass fraction 1) the comparison is false, as it
  is for the infinity of the C program.
\<close>

definition aqNaCl_messages :: "int \<Rightarrow> real \<Rightarrow> error + real \<Rightarrow> message list" where
  "aqNaCl_messages id_message T m =
     (if id_message < 2
      then (if T < 295 \<or> T > 365 then [Warning_thermcond_temperature_range T] else [])
         @ (case m of
              Inl e \<Rightarrow> []
            | Inr m \<Rightarrow> if m \<le> 6.0 then [Warning_thermcond_molality_range m] else [])
      else [])"

definition ThermCond_aqNaCl :: "int \<Rightarrow> real \<Rightarrow> real \<Rightarrow> (error + real) \<times> message list" where
  "ThermCond_aqNaCl id_message T w_nacl =
     (let m = Convert_w2m w_nacl;
          msgs = aqNaCl_messages id_message T m
      in (bind_err m (\<lambda>m. Inr (aqNaCl_outer T m 0 [0, 0, 0] 0)), msgs))"

subsection \<open>\<^verbatim>\<open>ConvertX\<close>\<close>

text \<open>
  The scratch array \<^verbatim>\<open>r\<close> has \<^verbatim>\<open>nmat\<close> cells, none of them written at first. The
  arrays \<^verbatim>\<open>MW\<close> and \<^verbatim>\<open>wi\<close> are read at the indices below \<^verbatim>\<open>nmat\<close>.
\<close>

function ConvertX_loop ::
  "int \<Rightarrow> real list \<Rightarrow> real list \<Rightarrow> nat \<Rightarrow> (error + real) list \<Rightarrow> real
   \<Rightarrow> error + ((error + real) list \<times> real)" where
  "ConvertX_loop nmat MW wi i r sum_N =
     (if int i < nmat
      then bind_err (arr_get wi (int i)) (\<lambda>w.
           bind_err (arr_get MW (int i)) (\<lambda>M.
           bind_err (fdiv w M) (\<lambda>q.
           bind_err (arr_set r (int i) (Inr q)) (\<lambda>r.
           ConvertX_loop nmat MW wi (Suc i) r (sum_N + q)))))
      else Inr (r, sum_N))"
  by pat_completeness auto
termination
  by (relation "measure (\<lambda>(nmat, MW, wi, i, r, sum_N). nat (nmat - int i))") auto

declare ConvertX_loop.simps [simp del]

definition ConvertX :: "int \<Rightarrow> int \<Rightarrow> real list \<Rightarrow> real list \<Rightarrow> error + real" where
  "ConvertX imat nmat MW wi =
     (let r = replicate (nat nmat) (Inl Uninitialised)
      in bind_err (ConvertX_loop nmat MW wi 0 r 0) (\<lambda>(r, sum_N).
         bind_err (kappa_read r imat) (\<lambda>ri.
         fdiv ri sum_N)))"

subsection \<open>\<^verbatim>\<open>ActivityCoefficient_h2o\<close> and \<^verbatim>\<open>WaterVaporPressure_brine\<close>\<close>

definition ActivityCoefficient_h2o :: "real \<Rightarrow> real" where
  "ActivityCoefficient_h2o x_nv = 1 - 0.5 * x_nv - 10 * pow x_nv 2"

definition WaterVaporPressure_brine :: "real \<Rightarrow> real \<Rightarrow> error + real" where
  "WaterVaporPressure_brine temperature mass_fraction_h2o =
     (let MW = [18.01534, 58.4428];
          wi = [mass_fraction_h2o, 1 - mass_fraction_h2o]
      in bind_err (ConvertX 0 2 MW wi) (\<lambda>xi.
           let x_nv = 1 - xi;
               alpha = ActivityCoefficient_h2o x_nv
           in bind_err (psat_h2o temperature) (\<lambda>p.
                Inr ((1 - x_nv) * alpha * p))))"

subsection \<open>Binary64 arithmetic\<close>

text \<open>
  Rounding of a real number to the nearest integer, a tie going to the even one.
\<close>

definition rne :: "real \<Rightarrow> int" where
  "rne x =
     (let f = \<lfloor>x\<rfloor>; r = x - of_int f
      in if r < 1 / 2 then f else if 1 / 2 < r then f + 1 else if even f then f else f + 1)"

text \<open>
  The exponent of the binade of a nonnegative number, found by search from the smallest
  exponent of the normal numbers, \<open>- 1022\<close>, which is also the exponent of the subnormal
  numbers, up to the largest, \<open>1023\<close>.
\<close>

function expo_from :: "real \<Rightarrow> int \<Rightarrow> int" where
  "expo_from x e = (if e < 1023 \<and> 2 powi (e + 1) \<le> x then expo_from x (e + 1) else e)"
  by pat_completeness auto
termination
  by (relation "measure (\<lambda>(x, e). nat (1023 - e))") auto

declare expo_from.simps [simp del]

definition expo :: "real \<Rightarrow> int" where
  "expo x = expo_from \<bar>x\<bar> (- 1022)"

definition grid :: "real \<Rightarrow> real" where
  "grid x = 2 powi (expo x - 52)"

definition binary64_round :: "real \<Rightarrow> real" where
  "binary64_round x = of_int (rne (x / grid x)) * grid x"

text \<open>
  The result of an operation: the rounded value, or the domain error where the program has
  an infinity (the rounded value reaches \<open>2 ^ 1024\<close>) or a zero divisor.
\<close>

definition fl :: "real \<Rightarrow> error + real" where
  "fl x = (let r = binary64_round x in if 2 ^ 1024 \<le> \<bar>r\<bar> then Inl DomainError else Inr r)"

definition fl_sub :: "real \<Rightarrow> real \<Rightarrow> error + real" where
  "fl_sub a b = fl (a - b)"

definition fl_add :: "real \<Rightarrow> real \<Rightarrow> error + real" where
  "fl_add a b = fl (a + b)"

definition fl_mul :: "real \<Rightarrow> real \<Rightarrow> error + real" where
  "fl_mul a b = fl (a * b)"

definition fl_div :: "real \<Rightarrow> real \<Rightarrow> error + real" where
  "fl_div a b = (if b = 0 then Inl DomainError else fl (a / b))"

text \<open>\<^verbatim>\<open>Convert_w2m\<close>, line 101, with the operations in the order of the C expression.\<close>

definition Convert_w2m_binary64 :: "real \<Rightarrow> error + real" where
  "Convert_w2m_binary64 w =
     bind_err (fl_sub 1 w) (\<lambda>d.
     bind_err (fl_div w d) (\<lambda>q.
     bind_err (fl_div q (binary64_round 58.4428)) (\<lambda>q.
     fl_mul q 1000)))"

text \<open>The value of that expression when no operation fails.\<close>

definition w2m_chain :: "real \<Rightarrow> real" where
  "w2m_chain w =
     binary64_round (binary64_round (binary64_round (w / binary64_round (1 - w))
       / binary64_round 58.4428) * 1000)"

text \<open>\<^verbatim>\<open>ConvertX\<close>, lines 150 to 155: the quotient, the running sum and the final quotient.\<close>

function ConvertX_loop_binary64 ::
  "int \<Rightarrow> real list \<Rightarrow> real list \<Rightarrow> nat \<Rightarrow> (error + real) list \<Rightarrow> real
   \<Rightarrow> error + ((error + real) list \<times> real)" where
  "ConvertX_loop_binary64 nmat MW wi i r sum_N =
     (if int i < nmat
      then bind_err (arr_get wi (int i)) (\<lambda>w.
           bind_err (arr_get MW (int i)) (\<lambda>M.
           bind_err (fl_div w M) (\<lambda>q.
           bind_err (arr_set r (int i) (Inr q)) (\<lambda>r.
           bind_err (fl_add sum_N q) (\<lambda>sum_N.
           ConvertX_loop_binary64 nmat MW wi (Suc i) r sum_N)))))
      else Inr (r, sum_N))"
  by pat_completeness auto
termination
  by (relation "measure (\<lambda>(nmat, MW, wi, i, r, sum_N). nat (nmat - int i))") auto

declare ConvertX_loop_binary64.simps [simp del]

definition ConvertX_binary64 :: "int \<Rightarrow> int \<Rightarrow> real list \<Rightarrow> real list \<Rightarrow> error + real" where
  "ConvertX_binary64 imat nmat MW wi =
     (let r = replicate (nat nmat) (Inl Uninitialised)
      in bind_err (ConvertX_loop_binary64 nmat MW wi 0 r 0) (\<lambda>(r, sum_N).
         bind_err (kappa_read r imat) (\<lambda>ri.
         fl_div ri sum_N)))"

section \<open>Properties\<close>

subsection \<open>Saturation pressure of water\<close>

lemma psat_loop_sum:
  "i \<le> C_LOOP \<Longrightarrow>
   psat_loop var1 i sum1 = sum1 + (\<Sum>k = i..<C_LOOP. psat_constants ! k * var1 ^ k)"
proof (induction var1 i sum1 rule: psat_loop.induct)
  case (1 var1 i sum1)
  show ?case
  proof (cases "i < C_LOOP")
    case True
    then have "psat_loop var1 i sum1 =
        psat_loop var1 (Suc i) (sum1 + psat_constants ! i * pow var1 i)"
      by (simp add: psat_loop.simps [of var1 i sum1])
    also have "\<dots> = sum1 + psat_constants ! i * pow var1 i
        + (\<Sum>k = Suc i..<C_LOOP. psat_constants ! k * var1 ^ k)"
      using "1.IH" [OF True] True by simp
    also have "\<dots> = sum1 + (\<Sum>k = i..<C_LOOP. psat_constants ! k * var1 ^ k)"
      using True by (simp add: sum.atLeast_Suc_lessThan pow_def)
    finally show ?thesis .
  next
    case False
    then have "psat_loop var1 i sum1 = sum1"
      by (simp add: psat_loop.simps [of var1 i sum1])
    moreover from False "1.prems" have "i = C_LOOP" by simp
    ultimately show ?thesis by simp
  qed
qed

lemma psat_loop_series:
  "psat_loop var1 0 0 = (\<Sum>k<8. psat_constants ! k * var1 ^ k)"
  using psat_loop_sum [of 0 var1 0] by (simp add: C_LOOP_def lessThan_atLeast0)

text \<open>
  Claim C9. For every temperature \<open>T\<close>, \<^verbatim>\<open>psat_h2o\<close> returns
  \<open>H2O_PC * exp (S * (H2O_TC / T - 1))\<close>, where \<open>S\<close> is the sum of the eight terms
  \<open>constants[i] * x ^ i\<close> in the reduced variable \<open>x = 0.01 * (T - 338.15)\<close>. At
  \<open>T = 0\<close> the quotient \<open>H2O_TC / T\<close> of the formula has a zero divisor, in the program
  as in the formula, and the result is the domain error.
\<close>

theorem psat_h2o_formula:
  "psat_h2o T =
     (if T = 0 then Inl DomainError
      else Inr (H2O_PC * exp ((\<Sum>i<8. psat_constants ! i * (0.01 * (T - 338.15)) ^ i)
                              * (H2O_TC / T - 1))))"
  by (simp add: psat_h2o_def Let_def bind_err_def fdiv_def psat_loop_series
      PSAT_A_def PSAT_TP_def)

theorem psat_h2o_formula_at_boiling_point:
  "psat_h2o 373.15 =
     Inr (H2O_PC * exp ((\<Sum>i<8. psat_constants ! i * (0.01 * (373.15 - 338.15)) ^ i)
                        * (H2O_TC / 373.15 - 1)))"
  using psat_h2o_formula [of "373.15"] by simp

subsection \<open>Maxwell conductivity of the membrane\<close>

lemma arr_set_twice:
  "arr_set xs k a = Inr ys \<Longrightarrow> arr_set ys k b = arr_set xs k b"
  by (auto simp: arr_set_def split: if_splits)

lemma arr_set_Inl:
  "arr_set xs k a = Inl e \<Longrightarrow> arr_set xs k b = Inl e"
  by (auto simp: arr_set_def split: if_splits)

text \<open>
  Claim C5. The value returned by \<^verbatim>\<open>ThermCond_Maxwell\<close>, and the messages it prints, are
  those of the variant in which the first formula for the gas conductivity,
  \<open>1.5e-3 * sqrt temp\<close>, is removed and only \<open>2.72e-3 + 7.77e-5 * temp\<close> is kept: the
  first assignment has no effect, for any input and any value of the phase macros.
\<close>

theorem ThermCond_Maxwell_first_gas_formula_dead:
  "ThermCond_Maxwell c temp porosity opt =
   ThermCond_Maxwell_second_formula_only c temp porosity opt"
proof (cases "arr_set [Inl Uninitialised, Inl Uninitialised] (GAS c) (kappa_gas_Jonsson temp)")
  case (Inl e)
  then show ?thesis
    using arr_set_Inl [OF Inl, of "kappa_gas_Bahmanyar temp"]
    by (simp add: ThermCond_Maxwell_def ThermCond_Maxwell_second_formula_only_def)
next
  case (Inr ys)
  then show ?thesis
    using arr_set_twice [OF Inr, of "kappa_gas_Bahmanyar temp"]
    by (simp add: ThermCond_Maxwell_def ThermCond_Maxwell_second_formula_only_def)
qed

lemma Maxwell_switch_default:
  assumes "opt \<noteq> 0" "opt \<noteq> 1" "opt \<noteq> 2" "opt \<noteq> 3"
  shows "Maxwell_switch c opt i = (i, [Wrong_opt_ThermCond_Maxwell])"
  using assms by (simp add: Maxwell_switch_def)

lemma ThermCond_Maxwell_default:
  assumes "phases_ok c" "opt \<noteq> 0" "opt \<noteq> 1" "opt \<noteq> 2" "opt \<noteq> 3"
  shows "ThermCond_Maxwell c temp porosity opt =
    (Maxwell_of_row 0 temp porosity, [Wrong_opt_ThermCond_Maxwell])"
proof -
  from assms(1) consider "GAS c = 0" "SOLID c = 1" | "GAS c = 1" "SOLID c = 0"
    unfolding phases_ok_def by linarith
  then show ?thesis
  proof cases
    case 1
    with assms(2-) show ?thesis
      by (simp add: ThermCond_Maxwell_def Maxwell_switch_def Maxwell_mix_def arr_set_def
          arr_get_def kappa_read_def bind_err_def Maxwell_A_def Maxwell_B_def
          kappa_gas_Bahmanyar_def Maxwell_of_row_def Maxwell_rule_def)
  next
    case 2
    with assms(2-) show ?thesis
      by (simp add: ThermCond_Maxwell_def Maxwell_switch_def Maxwell_mix_def arr_set_def
          arr_get_def kappa_read_def bind_err_def Maxwell_A_def Maxwell_B_def
          kappa_gas_Bahmanyar_def Maxwell_of_row_def Maxwell_rule_def)
  qed
qed

lemma Maxwell_rule_eq:
  "Maxwell_rule kg ks porosity =
     (let beta = (ks - kg) / (ks + 2 * kg)
      in if ks + 2 * kg = 0 \<or> 1 - beta * (1 - porosity) = 0 then Inl DomainError
         else Inr (kg * (1 + 2 * beta * (1 - porosity)) / (1 - beta * (1 - porosity))))"
  by (auto simp add: Maxwell_rule_def fdiv_def bind_err_def Let_def)

lemma Maxwell_of_row_0:
  "Maxwell_of_row 0 temp porosity =
    (let kappa_gas = 2.72 / 10 ^ 3 + 7.77 / 10 ^ 5 * temp;
         kappa_solid = 5.769 * (1 / 10 ^ 4) * temp + 0.9144 * (1 / 10 ^ 2);
         beta = (kappa_solid - kappa_gas) / (kappa_solid + 2 * kappa_gas)
     in if kappa_solid + 2 * kappa_gas = 0 \<or> 1 - beta * (1 - porosity) = 0
        then Inl DomainError
        else Inr (kappa_gas * (1 + 2 * beta * (1 - porosity)) / (1 - beta * (1 - porosity))))"
  by (simp only: Maxwell_of_row_def Maxwell_A_def Maxwell_B_def nth_Cons_0 Maxwell_rule_eq Let_def)

text \<open>
  With a positive temperature and a porosity between 0 and 1 no divisor of the mixing rule
  is zero: the conductivity of row 0 is a number.
\<close>

lemma Maxwell_rule_defined:
  assumes "0 < kg" "0 < ks" "0 \<le> porosity" "porosity \<le> 1"
  shows "\<exists>v. Maxwell_rule kg ks porosity = Inr v"
proof -
  define beta where "beta = (ks - kg) / (ks + 2 * kg)"
  from assms have d: "0 < ks + 2 * kg" by simp
  then have "beta < 1"
    unfolding beta_def using assms by (simp add: field_simps)
  have "beta * (1 - porosity) < 1"
  proof (cases "0 \<le> beta")
    case True
    then have "beta * (1 - porosity) \<le> beta * 1"
      using assms by (intro mult_left_mono) simp_all
    with \<open>beta < 1\<close> show ?thesis by simp
  next
    case False
    then have "beta * (1 - porosity) \<le> 0"
      using assms by (simp add: mult_le_0_iff)
    then show ?thesis by simp
  qed
  then have "1 - beta * (1 - porosity) \<noteq> 0" by simp
  with d show ?thesis
    unfolding Maxwell_rule_eq beta_def [symmetric] Let_def by simp
qed

lemma Maxwell_of_row_0_defined:
  assumes "0 < temp" "0 \<le> porosity" "porosity \<le> 1"
  shows "\<exists>v. Maxwell_of_row 0 temp porosity = Inr v"
  unfolding Maxwell_of_row_def
  using assms
  by (intro Maxwell_rule_defined) (simp_all add: Maxwell_A_def Maxwell_B_def add_pos_pos)

text \<open>
  Claim C2, as the specification has it: called with a material code outside
  \<open>{0, 1, 2, 3}\<close>, \<^verbatim>\<open>ThermCond_Maxwell\<close> reports an invalid-selector error rather than
  returning a conductivity computed from a default material's coefficient row. The
  program does not: with code 7, at 300 K and porosity 0.7, it prints its message and
  returns a conductivity.
\<close>

theorem ThermCond_Maxwell_invalid_opt_returns_value:
  "ThermCond_Maxwell consts0 300 (7 / 10) 7 =
     (Inr (2134358483 / 46854700000), [Wrong_opt_ThermCond_Maxwell])"
  by (simp add: ThermCond_Maxwell_def Maxwell_switch_def Maxwell_mix_def arr_set_def
      arr_get_def kappa_read_def bind_err_def Maxwell_A_def Maxwell_B_def
      kappa_gas_Bahmanyar_def consts0_def fdiv_def)

text \<open>
  Claim C2, amended. Called with a material code outside \<open>{0, 1, 2, 3}\<close>,
  \<^verbatim>\<open>ThermCond_Maxwell\<close> prints the message about the wrong argument \<^verbatim>\<open>opt\<close>, this
  message only, and then returns what the correlation gives for row 0 of the coefficient
  table; the message is the whole report, and no error takes the place of the value.
\<close>

theorem ThermCond_Maxwell_invalid_opt_message_and_row_0:
  assumes "phases_ok c" "opt \<notin> {0, 1, 2, 3}"
  shows "ThermCond_Maxwell c temp porosity opt =
    (Maxwell_of_row 0 temp porosity, [Wrong_opt_ThermCond_Maxwell])"
  using assms by (intro ThermCond_Maxwell_default) auto

theorem ThermCond_Maxwell_invalid_opt_message_and_row_0_witness:
  "phases_ok consts0 \<and> (5::int) \<notin> {0, 1, 2, 3} \<and>
   ThermCond_Maxwell consts0 350 (8 / 10) 5 =
     (Maxwell_of_row 0 350 (8 / 10), [Wrong_opt_ThermCond_Maxwell])"
  using ThermCond_Maxwell_invalid_opt_message_and_row_0 [of consts0 5 350 "8 / 10"]
  by (simp add: phases_ok_def consts0_def)

text \<open>
  Claim C10. Called with a material code outside \<open>{0, 1, 2, 3}\<close>, the index of the solid
  coefficients keeps its initial value 0 through the \<^verbatim>\<open>switch\<close>, and the result is the
  conductivity of the first row of the table, \<open>A = 5.769\<close> and \<open>B = 0.9144\<close>: a fixed
  function of the temperature and the porosity alone, whatever the code and whatever the
  material macros are.
\<close>

theorem ThermCond_Maxwell_invalid_opt_fixed_function:
  assumes "phases_ok c" "opt \<notin> {0, 1, 2, 3}"
  shows "fst (Maxwell_switch c opt 0) = 0 \<and>
    fst (ThermCond_Maxwell c temp porosity opt) =
    (let kappa_gas = 2.72 / 10 ^ 3 + 7.77 / 10 ^ 5 * temp;
         kappa_solid = 5.769 * (1 / 10 ^ 4) * temp + 0.9144 * (1 / 10 ^ 2);
         beta = (kappa_solid - kappa_gas) / (kappa_solid + 2 * kappa_gas)
     in if kappa_solid + 2 * kappa_gas = 0 \<or> 1 - beta * (1 - porosity) = 0
        then Inl DomainError
        else Inr (kappa_gas * (1 + 2 * beta * (1 - porosity)) / (1 - beta * (1 - porosity))))"
proof -
  from assms(2) have opt: "opt \<noteq> 0" "opt \<noteq> 1" "opt \<noteq> 2" "opt \<noteq> 3" by auto
  have "fst (ThermCond_Maxwell c temp porosity opt) = Maxwell_of_row 0 temp porosity"
    using ThermCond_Maxwell_default [OF assms(1) opt] by simp
  moreover have "fst (Maxwell_switch c opt 0) = 0"
    using Maxwell_switch_default [OF opt] by simp
  ultimately show ?thesis
    by (simp only: Maxwell_of_row_0 simp_thms)
qed

theorem ThermCond_Maxwell_invalid_opt_fixed_function_witness:
  "phases_ok consts0 \<and> (- 1 :: int) \<notin> {0, 1, 2, 3} \<and>
   fst (Maxwell_switch consts0 (- 1) 0) = 0 \<and>
   fst (ThermCond_Maxwell consts0 300 (7 / 10) (- 1)) = Inr (2134358483 / 46854700000)"
  using ThermCond_Maxwell_invalid_opt_fixed_function [of consts0 "- 1" 300 "7 / 10"]
  by (simp add: phases_ok_def consts0_def)

subsection \<open>Solubility of NaCl\<close>

lemma SatConc_loop_poly:
  "SatConc_loop temp 0 0 = 0.2628 + 62.75 / 10 ^ 6 * temp + 1.084 / 10 ^ 6 * temp ^ 2"
  by (simp add: SatConc_loop.simps [of _ 0] SatConc_loop.simps [of _ "Suc 0"]
      SatConc_loop.simps [of _ "Suc (Suc 0)"] SatConc_loop.simps [of _ "Suc (Suc (Suc 0))"]
      SatConc_A_def pow_def power2_eq_square)

text \<open>
  Whatever the input, \<^verbatim>\<open>SatConc\<close> returns the polynomial of three terms in the Celsius
  temperature; the only test it makes compares the input itself, in Kelvin, with 0 and 450.
\<close>

lemma SatConc_value:
  "fst (SatConc t) =
     0.2628 + 62.75 / 10 ^ 6 * (t - 273.15) + 1.084 / 10 ^ 6 * (t - 273.15) ^ 2"
  unfolding SatConc_def Let_def fst_conv by (rule SatConc_loop_poly)

lemma SatConc_messages:
  "snd (SatConc t) = (if t < 0 \<or> t > 450 then [Warning_solubility_range t] else [])"
  by (simp add: SatConc_def Let_def)

text \<open>
  Claim C4: \<^verbatim>\<open>SatConc\<close> converts its input from Kelvin to Celsius and warns exactly when
  the converted temperature is outside 0 to 450 degrees Celsius, and \<^verbatim>\<open>SatConc(500.0)\<close>
  warns and still returns the extrapolated polynomial. The program at two inputs: at
  100 K, which is 173.15 degrees below zero Celsius, it prints nothing; at 500 K, which is
  226.85 degrees Celsius and inside the range, it prints the warning, and returns the
  polynomial at 226.85.
\<close>

theorem SatConc_range_test_on_kelvin_input:
  "snd (SatConc 100) = [] \<and> (100::real) - 273.15 < 0 \<and>
   snd (SatConc 500) = [Warning_solubility_range 500] \<and>
   (0::real) \<le> 500 - 273.15 \<and> (500::real) - 273.15 \<le> 450 \<and>
   fst (SatConc 500) = 0.2628 + 62.75 / 10 ^ 6 * 226.85 + 1.084 / 10 ^ 6 * 226.85 ^ 2"
  by (simp add: SatConc_messages SatConc_value)

subsection \<open>Molality\<close>

lemma Convert_w2m_eq:
  "Convert_w2m w = (if w = 1 then Inl DomainError else Inr (w / (1 - w) / 58.4428 * 1000))"
  by (simp add: Convert_w2m_def fdiv_def bind_err_def)

text \<open>
  In exact arithmetic the molality is 0 at mass fraction 0 and grows strictly on the
  interval from 0 (included) to 1 (excluded).
\<close>

lemma Convert_w2m_exact_strictly_increasing:
  assumes "0 \<le> w1" "w1 < w2" "w2 < 1"
  shows "Convert_w2m 0 = Inr 0 \<and>
         (\<exists>m1 m2. Convert_w2m w1 = Inr m1 \<and> Convert_w2m w2 = Inr m2 \<and> m1 < m2)"
proof -
  define q1 q2 where "q1 = w1 / (1 - w1)" and "q2 = w2 / (1 - w2)"
  from assms have d: "0 < 1 - w1" "0 < 1 - w2" by simp_all
  have "w1 * (1 - w2) < w2 * (1 - w1)"
    using assms by (simp add: algebra_simps)
  with d have "q1 < q2"
    unfolding q1_def q2_def by (simp add: frac_less_eq field_simps)
  then have "q1 / 58.4428 * 1000 < q2 / 58.4428 * 1000"
    by simp
  moreover have "Convert_w2m w1 = Inr (q1 / 58.4428 * 1000)"
    using assms unfolding q1_def by (simp add: Convert_w2m_eq)
  moreover have "Convert_w2m w2 = Inr (q2 / 58.4428 * 1000)"
    using assms unfolding q2_def by (simp add: Convert_w2m_eq)
  moreover have "Convert_w2m 0 = Inr 0"
    by (simp add: Convert_w2m_eq)
  ultimately show ?thesis by blast
qed

text \<open>
  Claim C8. For a mass fraction \<open>w\<close> from 0 (included) to 1 (excluded) the divisor
  \<open>1 - w\<close> of \<^verbatim>\<open>Convert_w2m\<close> is not zero and the function returns the molality; at mass
  fraction 1 the division has a zero divisor, which nothing in the function guards, and
  the result is the domain error.
\<close>

theorem Convert_w2m_defined_below_one:
  assumes "0 \<le> w" "w < 1"
  shows "1 - w \<noteq> 0 \<and> Convert_w2m w = Inr (w / (1 - w) / 58.4428 * 1000) \<and>
         Convert_w2m 1 = Inl DomainError"
  using assms by (simp add: Convert_w2m_eq)

theorem Convert_w2m_defined_below_one_witness:
  "(0::real) \<le> 1 / 2 \<and> (1 / 2 :: real) < 1 \<and> 1 - (1 / 2 :: real) \<noteq> 0 \<and>
   Convert_w2m (1 / 2) = Inr (1 / 2 / (1 - 1 / 2) / 58.4428 * 1000) \<and>
   Convert_w2m 1 = Inl DomainError"
  using Convert_w2m_defined_below_one [of "1 / 2"] by simp

subsection \<open>Thermal conductivity of the NaCl solution\<close>

lemma ThermCond_aqNaCl_messages:
  "snd (ThermCond_aqNaCl id_message T w_nacl) =
     aqNaCl_messages id_message T (Convert_w2m w_nacl)"
  by (simp add: ThermCond_aqNaCl_def Let_def)

text \<open>
  What holds of the warnings: none is printed when \<^verbatim>\<open>id_message\<close> is 2 or more, the
  value returned does not depend on \<^verbatim>\<open>id_message\<close>, the temperature warning is printed
  exactly outside 295 K to 365 K, and the molality warning is printed exactly when the
  molality is at most 6.
\<close>

lemma ThermCond_aqNaCl_gated:
  "2 \<le> id_message \<Longrightarrow> snd (ThermCond_aqNaCl id_message T w_nacl) = []"
  by (simp add: ThermCond_aqNaCl_messages aqNaCl_messages_def)

lemma ThermCond_aqNaCl_value_same:
  "fst (ThermCond_aqNaCl id_message T w_nacl) = fst (ThermCond_aqNaCl id_message' T w_nacl)"
  by (simp add: ThermCond_aqNaCl_def Let_def)

lemma ThermCond_aqNaCl_temperature_warning:
  "id_message < 2 \<Longrightarrow>
   Warning_thermcond_temperature_range T \<in> set (snd (ThermCond_aqNaCl id_message T w_nacl))
     \<longleftrightarrow> T < 295 \<or> T > 365"
  by (auto simp add: ThermCond_aqNaCl_messages aqNaCl_messages_def split: sum.splits if_splits)

lemma ThermCond_aqNaCl_molality_warning:
  "id_message < 2 \<Longrightarrow> Convert_w2m w_nacl = Inr m \<Longrightarrow>
   Warning_thermcond_molality_range m \<in> set (snd (ThermCond_aqNaCl id_message T w_nacl))
     \<longleftrightarrow> m \<le> 6"
  by (auto simp add: ThermCond_aqNaCl_messages aqNaCl_messages_def split: sum.splits if_splits)

text \<open>
  Claim C3: \<^verbatim>\<open>ThermCond_aqNaCl\<close> warns exactly when the temperature is outside 295 K to
  365 K or the molality exceeds 6.0, under the gate of \<^verbatim>\<open>id_message\<close>, and the value
  does not depend on the warnings. The program with \<^verbatim>\<open>id_message = 0\<close> at 300 K: at mass
  fraction 0.1 the molality is about 1.9, inside the range, and the molality warning is
  printed; at mass fraction 0.5 the molality is about 17.1, above 6, and nothing is
  printed.
\<close>

theorem ThermCond_aqNaCl_molality_test_inverted:
  "Convert_w2m (1 / 10) = Inr (2500000 / 1314963) \<and> (2500000 / 1314963 :: real) \<le> 6 \<and>
   snd (ThermCond_aqNaCl 0 300 (1 / 10)) =
     [Warning_thermcond_molality_range (2500000 / 1314963)] \<and>
   Convert_w2m (1 / 2) = Inr (2500000 / 146107) \<and> (6::real) < 2500000 / 146107 \<and>
   snd (ThermCond_aqNaCl 0 300 (1 / 2)) = []"
  by (simp add: ThermCond_aqNaCl_messages aqNaCl_messages_def Convert_w2m_eq)

subsection \<open>Mole fractions and the vapour pressure of the brine\<close>

lemma ConvertX_loop_two:
  assumes "M0 \<noteq> 0" "M1 \<noteq> 0"
  shows "ConvertX_loop 2 [M0, M1] [w0, w1] 0 [Inl Uninitialised, Inl Uninitialised] 0 =
     Inr ([Inr (w0 / M0), Inr (w1 / M1)], w0 / M0 + w1 / M1)"
  using assms
  by (simp add: ConvertX_loop.simps [of _ _ _ 0] ConvertX_loop.simps [of _ _ _ "Suc 0"]
      ConvertX_loop.simps [of _ _ _ "Suc (Suc 0)"] arr_get_def arr_set_def fdiv_def bind_err_def)

lemma ConvertX_two_0:
  assumes "M0 \<noteq> 0" "M1 \<noteq> 0"
  shows "ConvertX 0 2 [M0, M1] [w0, w1] = fdiv (w0 / M0) (w0 / M0 + w1 / M1)"
  using ConvertX_loop_two [OF assms]
  by (simp add: ConvertX_def kappa_read_def arr_get_def bind_err_def numeral_2_eq_2)

lemma ConvertX_two_1:
  assumes "M0 \<noteq> 0" "M1 \<noteq> 0"
  shows "ConvertX 1 2 [M0, M1] [w0, w1] = fdiv (w1 / M1) (w0 / M0 + w1 / M1)"
  using ConvertX_loop_two [OF assms]
  by (simp add: ConvertX_def kappa_read_def arr_get_def bind_err_def numeral_2_eq_2)

text \<open>
  In exact arithmetic the two mole fractions of a system of two components sum to 1.
\<close>

lemma ConvertX_exact_two_components_sum_to_one:
  assumes "0 < M0" "0 < M1" "0 \<le> w" "w \<le> 1"
  shows "\<exists>x0 x1. ConvertX 0 2 [M0, M1] [w, 1 - w] = Inr x0 \<and>
                 ConvertX 1 2 [M0, M1] [w, 1 - w] = Inr x1 \<and> x0 + x1 = 1"
proof -
  define a b where "a = w / M0" and "b = (1 - w) / M1"
  have a: "0 \<le> a" and b: "0 \<le> b" using assms by (simp_all add: a_def b_def)
  have "0 < a \<or> 0 < b"
  proof (cases "w = 0")
    case True
    with assms show ?thesis by (simp add: b_def)
  next
    case False
    with assms have "0 < w" by simp
    with assms show ?thesis by (simp add: a_def)
  qed
  with a b have pos: "a + b \<noteq> 0" by linarith
  from assms have M: "M0 \<noteq> 0" "M1 \<noteq> 0" by simp_all
  have "ConvertX 0 2 [M0, M1] [w, 1 - w] = Inr (a / (a + b))"
    using pos unfolding ConvertX_two_0 [OF M] a_def [symmetric] b_def [symmetric]
    by (simp add: fdiv_def)
  moreover have "ConvertX 1 2 [M0, M1] [w, 1 - w] = Inr (b / (a + b))"
    using pos unfolding ConvertX_two_1 [OF M] a_def [symmetric] b_def [symmetric]
    by (simp add: fdiv_def)
  moreover have "a / (a + b) + b / (a + b) = 1"
    using pos by (simp add: add_divide_distrib [symmetric])
  ultimately show ?thesis by blast
qed

text \<open>
  Claim C1. For every temperature \<open>T\<close>, \<^verbatim>\<open>WaterVaporPressure_brine\<close> with the mass
  fraction of water 1 returns what \<^verbatim>\<open>psat_h2o\<close> returns at \<open>T\<close>: the mole fraction of
  water is 1, the nonvolatile fraction 0 and the activity coefficient 1.
\<close>

theorem WaterVaporPressure_brine_pure_water:
  "WaterVaporPressure_brine T 1 = psat_h2o T"
proof -
  have "ConvertX 0 2 [18.01534, 58.4428] [1, 1 - 1] = Inr 1"
    by (simp add: ConvertX_two_0 fdiv_def)
  then show ?thesis
    by (cases "psat_h2o T")
      (simp_all add: WaterVaporPressure_brine_def bind_err_def ActivityCoefficient_h2o_def
        pow_def)
qed

subsection \<open>Rounding to binary64\<close>

lemma rne_of_int [simp]: "rne (of_int k) = k"
  by (simp add: rne_def)

lemma rne_bounds: "real_of_int (rne x) - 1 / 2 \<le> x \<and> x \<le> real_of_int (rne x) + 1 / 2"
  unfolding rne_def Let_def by (auto; linarith)

lemma rne_mono: "x \<le> y \<Longrightarrow> rne x \<le> rne y"
proof -
  assume xy: "x \<le> y"
  have fl: "\<lfloor>x\<rfloor> \<le> \<lfloor>y\<rfloor>" using xy by (rule floor_mono)
  show ?thesis
  proof (cases "\<lfloor>x\<rfloor> = \<lfloor>y\<rfloor>")
    case True
    with xy show ?thesis unfolding rne_def Let_def by auto
  next
    case False
    with fl have "\<lfloor>x\<rfloor> + 1 \<le> \<lfloor>y\<rfloor>" by simp
    moreover have "rne x \<le> \<lfloor>x\<rfloor> + 1" unfolding rne_def Let_def by auto
    moreover have "\<lfloor>y\<rfloor> \<le> rne y" unfolding rne_def Let_def by auto
    ultimately show ?thesis by linarith
  qed
qed


lemma expo_from_ge: "e \<le> expo_from x e"
proof (induction x e rule: expo_from.induct)
  case (1 x e)
  then show ?case by (subst expo_from.simps) (auto; linarith)
qed

lemma expo_from_above: "expo_from x e = 1023 \<or> 1023 < e \<or> x < 2 powi (expo_from x e + 1)"
proof (induction x e rule: expo_from.induct)
  case (1 x e)
  show ?case
  proof (cases "e < 1023 \<and> 2 powi (e + 1) \<le> x")
    case True
    with 1 show ?thesis by (subst (1 2) expo_from.simps) auto
  next
    case False
    then show ?thesis by (subst (1 2) expo_from.simps) auto
  qed
qed

lemma expo_from_below: "e < expo_from x e \<Longrightarrow> 2 powi (expo_from x e) \<le> x"
proof (induction x e rule: expo_from.induct)
  case (1 x e)
  show ?case
  proof (cases "e < 1023 \<and> 2 powi (e + 1) \<le> x")
    case True
    then have eq: "expo_from x e = expo_from x (e + 1)"
      by (subst expo_from.simps) simp
    show ?thesis
    proof (cases "e + 1 < expo_from x (e + 1)")
      case True
      with 1 \<open>e < 1023 \<and> 2 powi (e + 1) \<le> x\<close> eq show ?thesis by simp
    next
      case False
      with expo_from_ge [of "e + 1" x] have "expo_from x (e + 1) = e + 1" by simp
      with True eq show ?thesis by simp
    qed
  next
    case False
    then have "expo_from x e = e" by (subst expo_from.simps) auto
    with "1.prems" show ?thesis by simp
  qed
qed

lemma expo_from_mono: "x \<le> y \<Longrightarrow> expo_from x e \<le> expo_from y e"
proof (induction x e rule: expo_from.induct)
  case (1 x e)
  show ?case
  proof (cases "e < 1023 \<and> 2 powi (e + 1) \<le> x")
    case True
    with "1.prems" have "e < 1023 \<and> 2 powi (e + 1) \<le> y" by simp
    then have "expo_from y e = expo_from y (e + 1)" by (subst expo_from.simps) simp
    moreover from True have "expo_from x e = expo_from x (e + 1)" by (subst expo_from.simps) simp
    ultimately show ?thesis using 1 True by simp
  next
    case False
    then have "expo_from x e = e" by (subst expo_from.simps) auto
    then show ?thesis using expo_from_ge [of e y] by simp
  qed
qed

lemma expo_from_eq:
  "e \<le> k \<Longrightarrow> k \<le> 1023 \<Longrightarrow> k = e \<or> 2 powi k \<le> x \<Longrightarrow> x < 2 powi (k + 1) \<Longrightarrow> expo_from x e = k"
proof (induction x e rule: expo_from.induct)
  case (1 x e)
  show ?case
  proof (cases "e = k")
    case True
    with "1.prems" show ?thesis by (subst expo_from.simps) simp
  next
    case False
    with "1.prems" have ek: "e + 1 \<le> k" "2 powi k \<le> x" by simp_all
    have "(2::real) powi (e + 1) \<le> 2 powi k"
      using ek by (intro power_int_increasing) simp_all
    with ek "1.prems" have c: "e < 1023 \<and> 2 powi (e + 1) \<le> x" by simp
    then have "expo_from x e = expo_from x (e + 1)" by (subst expo_from.simps) simp
    also have "\<dots> = k" using "1.IH" [OF c] ek "1.prems" by simp
    finally show ?thesis .
  qed
qed


lemma expo_from_le: "e \<le> 1023 \<Longrightarrow> expo_from x e \<le> 1023"
proof (induction x e rule: expo_from.induct)
  case (1 x e)
  then show ?case by (subst expo_from.simps) auto
qed

lemma expo_range: "- 1022 \<le> expo x \<and> expo x \<le> 1023"
  using expo_from_ge [of "- 1022" "\<bar>x\<bar>"] expo_from_le [of "- 1022" "\<bar>x\<bar>"]
  by (simp add: expo_def)

lemma expo_eqI:
  "- 1022 \<le> k \<Longrightarrow> k \<le> 1023 \<Longrightarrow> k = - 1022 \<or> 2 powi k \<le> \<bar>x\<bar> \<Longrightarrow> \<bar>x\<bar> < 2 powi (k + 1)
   \<Longrightarrow> expo x = k"
  unfolding expo_def by (rule expo_from_eq)

lemma grid_pos: "0 < grid x"
  by (simp add: grid_def zero_less_power_int)

lemma grid_shift: "2 powi (expo x + 1) = 2 ^ 53 * grid x" "2 powi (expo x) = 2 ^ 52 * grid x"
proof -
  have "(2::real) powi (expo x + 1) = 2 powi (53 + (expo x - 52))" by (simp add: add.commute)
  also have "\<dots> = 2 powi 53 * 2 powi (expo x - 52)" by (subst power_int_add) simp_all
  finally show "2 powi (expo x + 1) = 2 ^ 53 * grid x" by (simp add: grid_def)
  have "(2::real) powi (expo x) = 2 powi (52 + (expo x - 52))" by simp
  also have "\<dots> = 2 powi 52 * 2 powi (expo x - 52)" by (subst power_int_add) simp_all
  finally show "2 powi (expo x) = 2 ^ 52 * grid x" by (simp add: grid_def)
qed

lemma binary64_round_0 [simp]: "binary64_round 0 = 0"
  by (simp add: binary64_round_def rne_def)

lemma binary64_round_mono:
  assumes "0 \<le> x" "x \<le> y"
  shows "binary64_round x \<le> binary64_round y"
proof -
  have exy: "expo x \<le> expo y"
    using assms unfolding expo_def by (intro expo_from_mono) simp
  show ?thesis
  proof (cases "expo x = expo y")
    case True
    then have g: "grid x = grid y" by (simp add: grid_def)
    have "x / grid y \<le> y / grid y"
      using assms grid_pos [of y] by (simp add: divide_right_mono)
    then have "rne (x / grid y) \<le> rne (y / grid y)" by (rule rne_mono)
    then have "real_of_int (rne (x / grid y)) * grid y \<le> real_of_int (rne (y / grid y)) * grid y"
      using grid_pos [of y] by (simp add: mult_right_mono)
    with g show ?thesis by (simp add: binary64_round_def)
  next
    case False
    with exy have lt: "expo x < expo y" by simp
    with expo_range [of y] have "expo x \<noteq> 1023" by simp
    with expo_from_above [of "\<bar>x\<bar>" "- 1022"] have "\<bar>x\<bar> < 2 powi (expo x + 1)"
      by (simp add: expo_def)
    with assms have "x \<le> 2 ^ 53 * grid x" by (simp add: grid_shift)
    then have "x / grid x \<le> real_of_int (2 ^ 53)"
      using grid_pos [of x] by (simp add: field_simps)
    then have "rne (x / grid x) \<le> rne (real_of_int (2 ^ 53))" by (rule rne_mono)
    then have "rne (x / grid x) \<le> 2 ^ 53" by (simp only: rne_of_int)
    then have "real_of_int (rne (x / grid x)) \<le> 2 ^ 53"
      by (metis of_int_le_iff of_int_numeral of_int_power)
    then have "binary64_round x \<le> 2 ^ 53 * grid x"
      using grid_pos [of x] by (simp add: binary64_round_def mult_right_mono)
    then have up: "binary64_round x \<le> 2 powi (expo x + 1)" by (simp add: grid_shift)
    have "(2::real) powi (expo x + 1) \<le> 2 powi (expo y)"
      using lt by (intro power_int_increasing) simp_all
    with up have up': "binary64_round x \<le> 2 powi (expo y)" by simp
    from lt expo_range [of x] have "- 1022 < expo y" by simp
    then have "2 powi (expo y) \<le> \<bar>y\<bar>"
      using expo_from_below [of "- 1022" "\<bar>y\<bar>"] by (simp add: expo_def)
    with assms have "2 ^ 52 * grid y \<le> y" by (simp add: grid_shift)
    then have "real_of_int (2 ^ 52) \<le> y / grid y"
      using grid_pos [of y] by (simp add: field_simps)
    then have "rne (real_of_int (2 ^ 52)) \<le> rne (y / grid y)" by (rule rne_mono)
    then have "2 ^ 52 \<le> rne (y / grid y)" by (simp only: rne_of_int)
    then have "2 ^ 52 \<le> real_of_int (rne (y / grid y))"
      by (metis of_int_le_iff of_int_numeral of_int_power)
    then have "2 ^ 52 * grid y \<le> binary64_round y"
      using grid_pos [of y] by (simp add: binary64_round_def mult_right_mono)
    then have "2 powi (expo y) \<le> binary64_round y" by (simp add: grid_shift)
    with up' show ?thesis by simp
  qed
qed

lemma binary64_round_error:
  assumes "0 \<le> x"
  shows "\<bar>binary64_round x - x\<bar> \<le> x / 2 ^ 53 + 1 / 2 ^ 1075"
proof -
  let ?g = "grid x"
  have "\<bar>real_of_int (rne (x / ?g)) - x / ?g\<bar> \<le> 1 / 2"
    using rne_bounds [of "x / ?g"] by linarith
  then have "\<bar>real_of_int (rne (x / ?g)) - x / ?g\<bar> * ?g \<le> 1 / 2 * ?g"
    using grid_pos [of x] by (intro mult_right_mono) simp_all
  moreover have "\<bar>real_of_int (rne (x / ?g)) - x / ?g\<bar> * ?g = \<bar>binary64_round x - x\<bar>"
  proof -
    have "\<bar>real_of_int (rne (x / ?g)) - x / ?g\<bar> * ?g
        = \<bar>(real_of_int (rne (x / ?g)) - x / ?g) * ?g\<bar>"
      using grid_pos [of x] by (simp add: abs_mult)
    also have "(real_of_int (rne (x / ?g)) - x / ?g) * ?g = binary64_round x - x"
      using grid_pos [of x] by (simp add: binary64_round_def left_diff_distrib)
    finally show ?thesis .
  qed
  ultimately have half: "\<bar>binary64_round x - x\<bar> \<le> ?g / 2" by simp
  show ?thesis
  proof (cases "expo x = - 1022")
    case True
    then have "?g = 2 powi (- 1074)" by (simp add: grid_def)
    also have "\<dots> = 1 / 2 ^ 1074" by (simp add: power_int_minus divide_simps)
    finally have "?g / 2 = 1 / 2 ^ 1075" by simp
    with half assms show ?thesis by simp
  next
    case False
    with expo_range [of x] have "- 1022 < expo x" by simp
    then have "2 powi (expo x) \<le> \<bar>x\<bar>"
      using expo_from_below [of "- 1022" "\<bar>x\<bar>"] by (simp add: expo_def)
    with assms have "2 ^ 52 * ?g \<le> x" by (simp add: grid_shift)
    then have "?g / 2 \<le> x / 2 ^ 53" by simp
    with half show ?thesis by simp
  qed
qed

lemma binary64_round_eval:
  assumes "- 1022 \<le> k" "k \<le> 1023" "k = - 1022 \<or> 2 powi k \<le> \<bar>x\<bar>" "\<bar>x\<bar> < 2 powi (k + 1)"
  shows "binary64_round x = real_of_int (rne (x / 2 powi (k - 52))) * 2 powi (k - 52)"
  using expo_eqI [OF assms] by (simp add: binary64_round_def grid_def)

lemma fl_eval:
  assumes "- 1022 \<le> k" "k \<le> 1023" "k = - 1022 \<or> 2 powi k \<le> \<bar>x\<bar>" "\<bar>x\<bar> < 2 powi (k + 1)"
    and "real_of_int (rne (x / 2 powi (k - 52))) * 2 powi (k - 52) = y" and "\<bar>y\<bar> < 2 ^ 1024"
  shows "fl x = Inr y"
  using binary64_round_eval [OF assms(1-4)] assms(5,6) by (simp add: fl_def)

lemma fl_div_eval:
  "b \<noteq> 0 \<Longrightarrow> fl (a / b) = Inr y \<Longrightarrow> fl_div a b = Inr y"
  by (simp add: fl_div_def)

lemma binary64_round_58: "binary64_round 58.4428 = 8225092884452763 / 2 ^ 47"
  by (subst binary64_round_eval [of 5]) (simp_all add: rne_def)

lemma binary64_round_fix:
  "binary64_round 1 = 1" "binary64_round (1 / 2 ^ 53) = 1 / 2 ^ 53"
  "binary64_round (2 ^ 53) = 2 ^ 53" "binary64_round (2 ^ 63) = 2 ^ 63"
proof -
  show "binary64_round 1 = 1"
    by (subst binary64_round_eval [of 0]) (simp_all add: rne_def)
  show "binary64_round (1 / 2 ^ 53) = 1 / 2 ^ 53"
    by (subst binary64_round_eval [of "- 53"]) (simp_all add: rne_def)
  show "binary64_round (2 ^ 53) = 2 ^ 53"
    by (subst binary64_round_eval [of 53]) (simp_all add: rne_def)
  show "binary64_round (2 ^ 63) = 2 ^ 63"
    by (subst binary64_round_eval [of 63]) (simp_all add: rne_def)
qed

lemma binary64_round_nonneg: "0 \<le> x \<Longrightarrow> 0 \<le> binary64_round x"
  using binary64_round_mono [of 0 x] by simp

text \<open>An operation on nonnegative numbers below a representable bound does not overflow.\<close>

lemma fl_Inr:
  "0 \<le> x \<Longrightarrow> x \<le> b \<Longrightarrow> binary64_round b = b \<Longrightarrow> b < 2 ^ 1024
  \<Longrightarrow> fl x = Inr (binary64_round x)"
  using binary64_round_mono [of x b] binary64_round_nonneg [of x] by (simp add: fl_def)

lemma fl_Inr_53:
  "0 \<le> x \<Longrightarrow> x \<le> 2 ^ 53 \<Longrightarrow> fl x = Inr (binary64_round x)"
  by (erule (1) fl_Inr, rule binary64_round_fix, simp)

lemma fl_Inr_63:
  "0 \<le> x \<Longrightarrow> x \<le> 2 ^ 63 \<Longrightarrow> fl x = Inr (binary64_round x)"
  by (erule (1) fl_Inr, rule binary64_round_fix, simp)

lemma binary64_round_lower:
  "0 \<le> x \<Longrightarrow> (1 - 1 / 2 ^ 53) * x - 1 / 2 ^ 1075 \<le> binary64_round x"
  using binary64_round_error [of x] by (simp add: algebra_simps abs_le_iff)

lemma binary64_round_upper:
  "0 \<le> x \<Longrightarrow> binary64_round x \<le> (1 + 1 / 2 ^ 53) * x + 1 / 2 ^ 1075"
  using binary64_round_error [of x] by (simp add: algebra_simps abs_le_iff)

lemma binary64_round_fix_large:
  "binary64_round 2 = 2" "binary64_round (2 ^ 1000) = 2 ^ 1000"
  "binary64_round (2 ^ 1001) = 2 ^ 1001"
proof -
  show "binary64_round 2 = 2"
    by (subst binary64_round_eval [of 1]) (simp_all add: rne_def)
  show "binary64_round (2 ^ 1000) = 2 ^ 1000"
    by (subst binary64_round_eval [of 1000]) (simp_all add: rne_def)
  show "binary64_round (2 ^ 1001) = 2 ^ 1001"
    by (subst binary64_round_eval [of 1001]) (simp_all add: rne_def)
qed

lemma fl_Inr_1000:
  "0 \<le> x \<Longrightarrow> x \<le> 2 ^ 1000 \<Longrightarrow> fl x = Inr (binary64_round x)"
  by (erule (1) fl_Inr, rule binary64_round_fix_large, simp)

lemma fl_Inr_1001:
  "0 \<le> x \<Longrightarrow> x \<le> 2 ^ 1001 \<Longrightarrow> fl x = Inr (binary64_round x)"
  by (erule (1) fl_Inr, rule binary64_round_fix_large, simp)

lemma fl_Inr_2:
  "0 \<le> x \<Longrightarrow> x \<le> 2 \<Longrightarrow> fl x = Inr (binary64_round x)"
  by (erule (1) fl_Inr, rule binary64_round_fix_large, simp)

lemma quotient_range:
  assumes "1 / 2 ^ 1000 \<le> M" "0 \<le> w" "w \<le> (1::real)"
  shows "0 \<le> w / M" "w / M \<le> 2 ^ 1000"
proof -
  from assms(1) have M: "0 < M" by (rule less_le_trans [rotated]) simp
  with assms show "0 \<le> w / M" by simp
  have "w / M \<le> 1 / (1 / 2 ^ 1000)"
    using assms by (intro frac_le) simp_all
  then show "w / M \<le> 2 ^ 1000" by simp
qed

lemma quotient_lower:
  assumes "0 < M" "M \<le> 2 ^ 1000" "1 / 2 \<le> w"
  shows "1 / 2 ^ 1001 \<le> w / (M::real)"
proof -
  have "(1 / 2) / 2 ^ 1000 \<le> w / M"
    using assms by (intro frac_le) simp_all
  then show ?thesis by simp
qed

lemma binary64_round_fix_small: "binary64_round (1 / 2 ^ 1001) = 1 / 2 ^ 1001"
  by (subst binary64_round_eval [of "- 1001"]) (simp_all add: rne_def)

text \<open>
  A binary64 number below 1 is at most \<open>1 - 2 ^ - 53\<close>, the largest of them.
\<close>

lemma binary64_below_one:
  assumes "binary64_round w = w" "0 \<le> w" "w < 1"
  shows "w \<le> 1 - 1 / 2 ^ 53"
proof -
  consider "expo w \<le> - 2" | "expo w = - 1" | "0 \<le> expo w" by linarith
  then show ?thesis
  proof cases
    case 1
    with expo_range [of w] have "expo w \<noteq> 1023" by simp
    with expo_from_above [of "\<bar>w\<bar>" "- 1022"] have "\<bar>w\<bar> < 2 powi (expo w + 1)"
      by (simp add: expo_def)
    also have "\<dots> \<le> 2 powi (- 1)" using 1 by (intro power_int_increasing) simp_all
    finally have "w < 1 / 2" using assms(2) by (simp add: power_int_minus)
    then show ?thesis by simp
  next
    case 2
    then have g: "grid w = 1 / 2 ^ 53" by (simp add: grid_def power_int_minus divide_simps)
    define k where "k = rne (w / grid w)"
    from assms(1) have w: "w = real_of_int k / 2 ^ 53" by (simp add: binary64_round_def k_def g)
    with assms(3) have "real_of_int k < 2 ^ 53" by simp
    then have "k < 2 ^ 53" by (simp only: of_int_less_numeral_power_cancel_iff)
    then have "k \<le> 2 ^ 53 - 1" by simp
    then have "real_of_int k \<le> real_of_int (2 ^ 53 - 1)" by (simp only: of_int_le_iff)
    then have "real_of_int k / 2 ^ 53 \<le> (2 ^ 53 - 1) / 2 ^ 53" by (simp add: divide_right_mono)
    then show ?thesis unfolding w by simp
  next
    case 3
    with expo_range [of w] have "- 1022 < expo w" by simp
    then have "2 powi (expo w) \<le> \<bar>w\<bar>"
      using expo_from_below [of "- 1022" "\<bar>w\<bar>"] by (simp add: expo_def)
    moreover have "(2::real) powi 0 \<le> 2 powi (expo w)" using 3 by (intro power_int_increasing) simp_all
    ultimately have "1 \<le> w" using assms(2) by simp
    with assms(3) show ?thesis by simp
  qed
qed

lemma binary64_round_half: "binary64_round (1 / 2) = 1 / 2"
  by (subst binary64_round_eval [of "- 1"]) (simp_all add: rne_def)

subsection \<open>Molality in binary64\<close>

lemma Convert_w2m_binary64_chain:
  assumes "0 \<le> w" "w \<le> 1 - 1 / 2 ^ 53"
  shows "Convert_w2m_binary64 w = Inr (w2m_chain w)"
proof -
  define d where "d = binary64_round (1 - w)"
  define q where "q = binary64_round (w / d)"
  define c :: real where "c = 8225092884452763 / 2 ^ 47"
  define q2 where "q2 = binary64_round (q / c)"
  have c: "binary64_round 58.4428 = c" "1 \<le> c"
    unfolding c_def by (rule binary64_round_58) simp
  have "binary64_round (1 / 2 ^ 53) \<le> d"
    unfolding d_def using assms by (intro binary64_round_mono) simp_all
  then have d: "1 / 2 ^ 53 \<le> d" by (simp only: binary64_round_fix)
  have "d \<le> binary64_round 1"
    unfolding d_def using assms by (intro binary64_round_mono) simp_all
  then have d1: "d \<le> 1" by (simp only: binary64_round_fix)
  from d have dpos: "0 < d" by (rule less_le_trans [rotated]) simp
  have s1: "fl_sub 1 w = Inr d"
    unfolding fl_sub_def d_def using assms
    by (intro fl_Inr [of _ 1]) (simp_all add: binary64_round_fix)
  have "w \<le> 1" using assms(2) by simp
  have "w / d \<le> 1 / (1 / 2 ^ 53)"
    using \<open>0 \<le> w\<close> \<open>w \<le> 1\<close> d by (intro frac_le) simp_all
  then have wd: "0 \<le> w / d" "w / d \<le> 2 ^ 53" using assms dpos by simp_all
  have "fl (w / d) = Inr q" unfolding q_def using wd by (rule fl_Inr_53)
  then have s2: "fl_div w d = Inr q" using dpos by (simp add: fl_div_def)
  have "q \<le> binary64_round (2 ^ 53)" unfolding q_def using wd by (rule binary64_round_mono)
  then have "q \<le> 2 ^ 53" by (simp only: binary64_round_fix)
  moreover have "0 \<le> q" unfolding q_def using wd(1) by (rule binary64_round_nonneg)
  ultimately have q: "0 \<le> q" "q \<le> 2 ^ 53" by simp_all
  have "q / c \<le> q / 1" using q c by (intro divide_left_mono) simp_all
  with q c have qc: "0 \<le> q / c" "q / c \<le> 2 ^ 53" by simp_all
  have "fl (q / c) = Inr q2" unfolding q2_def using qc by (rule fl_Inr_53)
  then have s3: "fl_div q c = Inr q2" using c by (simp add: fl_div_def)
  have "q2 \<le> binary64_round (2 ^ 53)" unfolding q2_def using qc by (rule binary64_round_mono)
  then have "q2 \<le> 2 ^ 53" by (simp only: binary64_round_fix)
  moreover have "0 \<le> q2" unfolding q2_def using qc(1) by (rule binary64_round_nonneg)
  ultimately have q2: "0 \<le> q2" "q2 \<le> 2 ^ 53" by simp_all
  have "q2 * 1000 \<le> 2 ^ 53 * 2 ^ 10" using q2 by (intro mult_mono) simp_all
  with q2 have qm: "0 \<le> q2 * 1000" "q2 * 1000 \<le> 2 ^ 63" by simp_all
  have s4: "fl_mul q2 1000 = Inr (binary64_round (q2 * 1000))"
    unfolding fl_mul_def using qm by (rule fl_Inr_63)
  have "w2m_chain w = binary64_round (q2 * 1000)"
    by (simp only: w2m_chain_def c d_def q_def q2_def)
  then show ?thesis
    by (simp only: Convert_w2m_binary64_def c s1 s2 s3 s4 bind_err_def sum.case)
qed

lemma w2m_chain_mono:
  assumes "0 \<le> w1" "w1 \<le> w2" "w2 \<le> 1 - 1 / 2 ^ 53"
  shows "w2m_chain w1 \<le> w2m_chain w2"
proof -
  define c :: real where "c = 8225092884452763 / 2 ^ 47"
  have c: "binary64_round 58.4428 = c" "0 < c"
    unfolding c_def by (rule binary64_round_58) simp
  have "binary64_round (1 / 2 ^ 53) \<le> binary64_round (1 - w2)"
    using assms by (intro binary64_round_mono) simp_all
  then have "1 / 2 ^ 53 \<le> binary64_round (1 - w2)" by (simp only: binary64_round_fix)
  then have d2: "0 < binary64_round (1 - w2)" by (rule less_le_trans [rotated]) simp
  have "0 \<le> 1 - w2" using assms by simp
  then have d21: "binary64_round (1 - w2) \<le> binary64_round (1 - w1)"
    using assms by (intro binary64_round_mono) simp_all
  with d2 have d1: "0 < binary64_round (1 - w1)" by simp
  have x: "w1 / binary64_round (1 - w1) \<le> w2 / binary64_round (1 - w2)"
    using assms d2 d21 by (intro frac_le) simp_all
  have x0: "0 \<le> w1 / binary64_round (1 - w1)" using assms d1 by simp
  have y: "binary64_round (w1 / binary64_round (1 - w1))
      \<le> binary64_round (w2 / binary64_round (1 - w2))"
    using x0 x by (rule binary64_round_mono)
  have y0: "0 \<le> binary64_round (w1 / binary64_round (1 - w1))"
    using x0 by (rule binary64_round_nonneg)
  have z: "binary64_round (binary64_round (w1 / binary64_round (1 - w1)) / c)
      \<le> binary64_round (binary64_round (w2 / binary64_round (1 - w2)) / c)"
    using y y0 c by (intro binary64_round_mono) (simp_all add: divide_right_mono)
  have z0: "0 \<le> binary64_round (binary64_round (w1 / binary64_round (1 - w1)) / c)"
    using y0 c by (intro binary64_round_nonneg) simp
  have "binary64_round (binary64_round (binary64_round (w1 / binary64_round (1 - w1)) / c) * 1000)
      \<le> binary64_round (binary64_round (binary64_round (w2 / binary64_round (1 - w2)) / c) * 1000)"
    using z z0 by (intro binary64_round_mono) simp_all
  then show ?thesis by (simp only: w2m_chain_def c)
qed

lemma Convert_w2m_binary64_nondecreasing_below:
  assumes "0 \<le> w1" "w1 \<le> w2" "w2 \<le> 1 - 1 / 2 ^ 53"
  shows "Convert_w2m_binary64 0 = Inr 0 \<and>
         (\<exists>m1 m2. Convert_w2m_binary64 w1 = Inr m1 \<and> Convert_w2m_binary64 w2 = Inr m2 \<and> m1 \<le> m2)"
proof -
  from assms have w1: "w1 \<le> 1 - 1 / 2 ^ 53" by simp
  have "Convert_w2m_binary64 0 = Inr (w2m_chain 0)"
    by (rule Convert_w2m_binary64_chain) simp_all
  moreover have "w2m_chain 0 = 0"
    by (simp add: w2m_chain_def)
  moreover note Convert_w2m_binary64_chain [OF assms(1) w1]
    Convert_w2m_binary64_chain [OF order_trans [OF assms(1,2)] assms(3)]
    w2m_chain_mono [OF assms]
  ultimately show ?thesis by simp
qed

lemma Convert_w2m_lower_1: "fl_sub 1 (8170603820889696 / 2 ^ 58) = Inr (8751867885338189 / 2 ^ 53)"
  unfolding fl_sub_def by (rule fl_eval [of "- 1"]) (simp_all add: rne_def)

lemma Convert_w2m_lower_2:
  "fl_div (8170603820889696 / 2 ^ 58) (8751867885338189 / 2 ^ 53) = Inr (8408977101858725 / 2 ^ 58)"
  by (rule fl_div_eval, simp, rule fl_eval [of "- 6"]) (simp_all add: rne_def)

lemma Convert_w2m_lower_3:
  "fl_div (8408977101858725 / 2 ^ 58) (binary64_round 58.4428) = Inr (2302142156599951 / 2 ^ 62)"
  unfolding binary64_round_58
  by (rule fl_div_eval, simp, rule fl_eval [of "- 11"]) (simp_all add: rne_def)

lemma Convert_w2m_lower_4:
  "fl_mul (2302142156599951 / 2 ^ 62) 1000 = Inr (8992742799218559 / 2 ^ 54)"
  unfolding fl_mul_def by (rule fl_eval [of "- 2"]) (simp_all add: rne_def)

lemma Convert_w2m_lower:
  "Convert_w2m_binary64 (8170603820889696 / 2 ^ 58) = Inr (8992742799218559 / 2 ^ 54)"
  by (simp only: Convert_w2m_binary64_def bind_err_def sum.case Convert_w2m_lower_1
      Convert_w2m_lower_2 Convert_w2m_lower_3 Convert_w2m_lower_4)

lemma Convert_w2m_upper_1: "fl_sub 1 (8170603820889697 / 2 ^ 58) = Inr (8751867885338189 / 2 ^ 53)"
  unfolding fl_sub_def by (rule fl_eval [of "- 1"]) (simp_all add: rne_def)

lemma Convert_w2m_upper_2:
  "fl_div (8170603820889697 / 2 ^ 58) (8751867885338189 / 2 ^ 53) = Inr (4204488550929363 / 2 ^ 57)"
  by (rule fl_div_eval, simp, rule fl_eval [of "- 6"]) (simp_all add: rne_def)

lemma Convert_w2m_upper_3:
  "fl_div (4204488550929363 / 2 ^ 57) (binary64_round 58.4428) = Inr (2302142156599951 / 2 ^ 62)"
  unfolding binary64_round_58
  by (rule fl_div_eval, simp, rule fl_eval [of "- 11"]) (simp_all add: rne_def)

lemma Convert_w2m_upper_4:
  "fl_mul (2302142156599951 / 2 ^ 62) 1000 = Inr (8992742799218559 / 2 ^ 54)"
  unfolding fl_mul_def by (rule fl_eval [of "- 2"]) (simp_all add: rne_def)

lemma Convert_w2m_upper:
  "Convert_w2m_binary64 (8170603820889697 / 2 ^ 58) = Inr (8992742799218559 / 2 ^ 54)"
  by (simp only: Convert_w2m_binary64_def bind_err_def sum.case Convert_w2m_upper_1
      Convert_w2m_upper_2 Convert_w2m_upper_3 Convert_w2m_upper_4)

text \<open>
  Claim C6, as the specification has it: \<^verbatim>\<open>Convert_w2m\<close> is strictly increasing on
  the interval from 0 to 1. The program in binary64: the mass fraction
  \<open>8170603820889696 / 2 ^ 58\<close>, about 0.02835, and the next binary64 number above it
  both give the molality \<open>8992742799218559 / 2 ^ 54\<close>, about 0.4992.
\<close>

theorem Convert_w2m_binary64_not_strictly_increasing:
  "(0::real) \<le> 8170603820889696 / 2 ^ 58 \<and>
   (8170603820889696 / 2 ^ 58 :: real) < 8170603820889697 / 2 ^ 58 \<and>
   (8170603820889697 / 2 ^ 58 :: real) < 1 \<and>
   Convert_w2m_binary64 (8170603820889696 / 2 ^ 58) = Inr (8992742799218559 / 2 ^ 54) \<and>
   Convert_w2m_binary64 (8170603820889697 / 2 ^ 58) = Inr (8992742799218559 / 2 ^ 54)"
  using Convert_w2m_lower Convert_w2m_upper by simp

text \<open>
  Claim C6, amended. \<^verbatim>\<open>Convert_w2m\<close> returns 0 at mass fraction 0 and is nondecreasing
  on the interval from 0 (included) to 1 (excluded): for mass fractions \<open>w1 \<le> w2\<close>
  there, \<open>w2\<close> a binary64 number, both calls return and the molality of \<open>w1\<close> is at
  most that of \<open>w2\<close>.
\<close>

theorem Convert_w2m_binary64_zero_and_nondecreasing:
  assumes "0 \<le> w1" "w1 \<le> w2" "w2 < 1" "binary64_round w2 = w2"
  shows "Convert_w2m_binary64 0 = Inr 0 \<and>
         (\<exists>m1 m2. Convert_w2m_binary64 w1 = Inr m1 \<and> Convert_w2m_binary64 w2 = Inr m2 \<and> m1 \<le> m2)"
proof -
  from assms have "0 \<le> w2" by simp
  with assms have "w2 \<le> 1 - 1 / 2 ^ 53" by (intro binary64_below_one)
  with assms(1,2) show ?thesis by (rule Convert_w2m_binary64_nondecreasing_below)
qed

theorem Convert_w2m_binary64_zero_and_nondecreasing_witness:
  "(0::real) \<le> 1 / 4 \<and> (1 / 4 :: real) \<le> 1 / 2 \<and> (1 / 2 :: real) < 1 \<and>
   binary64_round (1 / 2) = 1 / 2 \<and> Convert_w2m_binary64 0 = Inr 0 \<and>
   (\<exists>m1 m2. Convert_w2m_binary64 (1 / 4) = Inr m1 \<and> Convert_w2m_binary64 (1 / 2) = Inr m2 \<and> m1 \<le> m2)"
  using Convert_w2m_binary64_zero_and_nondecreasing [of "1 / 4" "1 / 2"] binary64_round_half by simp

subsection \<open>Mole fractions in binary64\<close>

lemma ConvertX_loop_binary64_two:
  assumes "M0 \<noteq> 0" "M1 \<noteq> 0" "fl (w0 / M0) = Inr r0" "fl (0 + r0) = Inr s0"
    "fl (w1 / M1) = Inr r1" "fl (s0 + r1) = Inr s"
  shows "ConvertX_loop_binary64 2 [M0, M1] [w0, w1] 0 [Inl Uninitialised, Inl Uninitialised] 0 =
     Inr ([Inr r0, Inr r1], s)"
  using assms
  by (simp add: ConvertX_loop_binary64.simps [of _ _ _ 0]
      ConvertX_loop_binary64.simps [of _ _ _ "Suc 0"]
      ConvertX_loop_binary64.simps [of _ _ _ "Suc (Suc 0)"]
      arr_get_def arr_set_def fl_div_def fl_add_def bind_err_def)

lemma ConvertX_binary64_two:
  assumes "M0 \<noteq> 0" "M1 \<noteq> 0" "fl (w0 / M0) = Inr r0" "fl (0 + r0) = Inr s0"
    "fl (w1 / M1) = Inr r1" "fl (s0 + r1) = Inr s"
  shows "ConvertX_binary64 0 2 [M0, M1] [w0, w1] = fl_div r0 s"
    and "ConvertX_binary64 1 2 [M0, M1] [w0, w1] = fl_div r1 s"
  using ConvertX_loop_binary64_two [OF assms]
  by (simp_all add: ConvertX_binary64_def kappa_read_def arr_get_def bind_err_def numeral_2_eq_2)


lemma binary64_round_18: "binary64_round 18.01534 = 5070867406934549 / 2 ^ 48"
  by (subst binary64_round_eval [of 4]) (simp_all add: rne_def)

lemma ConvertX_half_r0: "fl (1 / 2 / (5070867406934549 / 2 ^ 48)) = Inr (7999581916070187 / 2 ^ 58)"
  by (rule fl_eval [of "- 6"]) (simp_all add: rne_def)

lemma ConvertX_half_s0: "fl (0 + 7999581916070187 / 2 ^ 58) = Inr (7999581916070187 / 2 ^ 58)"
  by (rule fl_eval [of "- 6"]) (simp_all add: rne_def)

lemma ConvertX_half_r1:
  "fl ((1 - 1 / 2) / (8225092884452763 / 2 ^ 47)) = Inr (1232959304446877 / 2 ^ 57)"
  by (rule fl_eval [of "- 7"]) (simp_all add: rne_def)

lemma ConvertX_half_s:
  "fl (7999581916070187 / 2 ^ 58 + 1232959304446877 / 2 ^ 57) = Inr (2616375131240985 / 2 ^ 56)"
  by (rule fl_eval [of "- 5"]) (simp_all add: rne_def)

lemma ConvertX_half_x0:
  "fl_div (7999581916070187 / 2 ^ 58) (2616375131240985 / 2 ^ 56) = Inr (860611349891877 / 2 ^ 50)"
  by (rule fl_div_eval, simp, rule fl_eval [of "- 1"]) (simp_all add: rne_def)

lemma ConvertX_half_x1:
  "fl_div (1232959304446877 / 2 ^ 57) (2616375131240985 / 2 ^ 56) = Inr (8489233822423909 / 2 ^ 55)"
  by (rule fl_div_eval, simp, rule fl_eval [of "- 3"]) (simp_all add: rne_def)

lemma ConvertX_half_sum:
  "fl_add (860611349891877 / 2 ^ 50) (8489233822423909 / 2 ^ 55) = Inr (1 + 1 / 2 ^ 52)"
  unfolding fl_add_def by (rule fl_eval [of 0]) (simp_all add: rne_def)

text \<open>
  Claim C7, as the specification has it: for two components the two mole fractions sum
  exactly to 1. The program in binary64, with the molar weights of water and NaCl of the
  source and the mass fractions 0.5 and 0.5: the two results sum to \<open>1 + 5 / 2 ^ 55\<close>,
  and their binary64 sum is \<open>1 + 2 ^ - 52\<close>, the next number above 1.
\<close>

theorem ConvertX_binary64_sum_not_one:
  "ConvertX_binary64 0 2 [binary64_round 18.01534, binary64_round 58.4428] [1 / 2, 1 - 1 / 2] =
     Inr (860611349891877 / 2 ^ 50) \<and>
   ConvertX_binary64 1 2 [binary64_round 18.01534, binary64_round 58.4428] [1 / 2, 1 - 1 / 2] =
     Inr (8489233822423909 / 2 ^ 55) \<and>
   (860611349891877 / 2 ^ 50 + 8489233822423909 / 2 ^ 55 :: real) = 1 + 5 / 2 ^ 55 \<and>
   fl_add (860611349891877 / 2 ^ 50) (8489233822423909 / 2 ^ 55) = Inr (1 + 1 / 2 ^ 52)"
proof -
  have ne: "(5070867406934549 / 2 ^ 48 :: real) \<noteq> 0" "(8225092884452763 / 2 ^ 47 :: real) \<noteq> 0"
    by simp_all
  note two = ConvertX_binary64_two
    [OF ne ConvertX_half_r0 ConvertX_half_s0 ConvertX_half_r1 ConvertX_half_s]
  have "ConvertX_binary64 0 2 [binary64_round 18.01534, binary64_round 58.4428] [1 / 2, 1 - 1 / 2] =
     Inr (860611349891877 / 2 ^ 50)"
    by (simp only: binary64_round_18 binary64_round_58 two ConvertX_half_x0)
  moreover have "ConvertX_binary64 1 2 [binary64_round 18.01534, binary64_round 58.4428] [1 / 2, 1 - 1 / 2] =
     Inr (8489233822423909 / 2 ^ 55)"
    by (simp only: binary64_round_18 binary64_round_58 two ConvertX_half_x1)
  moreover have "(860611349891877 / 2 ^ 50 + 8489233822423909 / 2 ^ 55 :: real) = 1 + 5 / 2 ^ 55"
    by simp
  ultimately show ?thesis using ConvertX_half_sum by simp
qed

text \<open>
  Claim C7, amended. For two components with molar weights between \<open>2 ^ - 1000\<close> and
  \<open>2 ^ 1000\<close> and the mass fractions \<open>w\<close> and \<open>1 - w\<close>, \<open>w\<close> between 0 and 1,
  \<^verbatim>\<open>ConvertX\<close> returns a mole fraction for index 0 and for index 1, and the two sum to 1
  up to rounding: the sum differs from 1 by at most \<open>2 ^ - 50\<close>.
\<close>

theorem ConvertX_binary64_two_components_sum_near_one:
  assumes "1 / 2 ^ 1000 \<le> M0" "M0 \<le> 2 ^ 1000" "1 / 2 ^ 1000 \<le> M1" "M1 \<le> 2 ^ 1000"
    and "0 \<le> w" "w \<le> 1"
  shows "\<exists>x0 x1. ConvertX_binary64 0 2 [M0, M1] [w, 1 - w] = Inr x0 \<and>
                 ConvertX_binary64 1 2 [M0, M1] [w, 1 - w] = Inr x1 \<and>
                 \<bar>x0 + x1 - 1\<bar> \<le> 1 / 2 ^ 50"
proof -
  define a b where "a = w / M0" and "b = (1 - w) / M1"
  define r0 r1 where "r0 = binary64_round a" and "r1 = binary64_round b"
  define s0 where "s0 = binary64_round (0 + r0)"
  define s where "s = binary64_round (s0 + r1)"
  define y0 y1 where "y0 = r0 / s" and "y1 = r1 / s"
  define x0 x1 where "x0 = binary64_round y0" and "x1 = binary64_round y1"
  from assms(1) have M0: "0 < M0" by (rule less_le_trans [rotated]) simp
  from assms(3) have M1: "0 < M1" by (rule less_le_trans [rotated]) simp
  have a: "0 \<le> a" "a \<le> 2 ^ 1000"
    unfolding a_def using assms by (intro quotient_range; simp)+
  have b: "0 \<le> b" "b \<le> 2 ^ 1000"
    unfolding b_def using assms by (intro quotient_range; simp)+
  have r0: "0 \<le> r0" unfolding r0_def using a(1) by (rule binary64_round_nonneg)
  have "r0 \<le> binary64_round (2 ^ 1000)" unfolding r0_def using a by (rule binary64_round_mono)
  then have r0': "r0 \<le> 2 ^ 1000" by (simp only: binary64_round_fix_large)
  have r1: "0 \<le> r1" unfolding r1_def using b(1) by (rule binary64_round_nonneg)
  have "r1 \<le> binary64_round (2 ^ 1000)" unfolding r1_def using b by (rule binary64_round_mono)
  then have r1': "r1 \<le> 2 ^ 1000" by (simp only: binary64_round_fix_large)
  have t: "1 / 2 ^ 1001 \<le> r0 + r1"
  proof (cases "1 / 2 \<le> w")
    case True
    then have "1 / 2 ^ 1001 \<le> a" unfolding a_def using M0 assms(2) by (intro quotient_lower)
    then have "binary64_round (1 / 2 ^ 1001) \<le> r0"
      unfolding r0_def by (intro binary64_round_mono) simp_all
    then have "1 / 2 ^ 1001 \<le> r0" by (simp only: binary64_round_fix_small)
    with r1 show ?thesis by linarith
  next
    case False
    then have "1 / 2 \<le> 1 - w" by simp
    then have "1 / 2 ^ 1001 \<le> b" unfolding b_def using M1 assms(4) by (intro quotient_lower)
    then have "binary64_round (1 / 2 ^ 1001) \<le> r1"
      unfolding r1_def by (intro binary64_round_mono) simp_all
    then have "1 / 2 ^ 1001 \<le> r1" by (simp only: binary64_round_fix_small)
    with r0 show ?thesis by linarith
  qed
  then have tpos: "0 < r0 + r1" by (rule less_le_trans [rotated]) simp
  have f0: "fl (w / M0) = Inr r0"
    unfolding r0_def a_def [symmetric] using a by (rule fl_Inr_1000)
  have f1: "fl ((1 - w) / M1) = Inr r1"
    unfolding r1_def b_def [symmetric] using b by (rule fl_Inr_1000)
  have z: "0 \<le> 0 + r0" "0 + r0 \<le> 2 ^ 1000" using r0 r0' by simp_all
  have fs0: "fl (0 + r0) = Inr s0" unfolding s0_def using z by (rule fl_Inr_1000)
  have s0: "0 \<le> s0" unfolding s0_def using z(1) by (rule binary64_round_nonneg)
  have "s0 \<le> binary64_round (2 ^ 1000)" unfolding s0_def using z by (rule binary64_round_mono)
  then have s0': "s0 \<le> 2 ^ 1000" by (simp only: binary64_round_fix_large)
  have zz: "0 \<le> s0 + r1" "s0 + r1 \<le> 2 ^ 1001" using s0 s0' r1 r1' by simp_all
  have fs: "fl (s0 + r1) = Inr s" unfolding s_def using zz by (rule fl_Inr_1001)
  define eta :: real where "eta = 1 / 2 ^ 1075"
  have lo: "9007199254740991 / 9007199254740992 * x - eta \<le> binary64_round x" if "0 \<le> x" for x
    using binary64_round_lower [OF that] by (simp add: eta_def)
  have up: "binary64_round x \<le> 9007199254740993 / 9007199254740992 * x + eta" if "0 \<le> x" for x
    using binary64_round_upper [OF that] by (simp add: eta_def)
  have "(1 / 2 ^ 1001) / 2 ^ 74 \<le> (r0 + r1) / 2 ^ 74"
    using t by (intro divide_right_mono) simp_all
  then have e: "eta \<le> (r0 + r1) / 18889465931478580854784" by (simp add: eta_def)
  have e': "eta \<le> 1 / 18014398509481984" by (simp add: eta_def)
  have Ls0: "9007199254740991 / 9007199254740992 * (0 + r0) - eta \<le> s0"
    unfolding s0_def using z(1) by (rule lo)
  have Us0: "s0 \<le> 9007199254740993 / 9007199254740992 * (0 + r0) + eta"
    unfolding s0_def using z(1) by (rule up)
  have Ls: "9007199254740991 / 9007199254740992 * (s0 + r1) - eta \<le> s"
    unfolding s_def using zz(1) by (rule lo)
  have Us: "s \<le> 9007199254740993 / 9007199254740992 * (s0 + r1) + eta"
    unfolding s_def using zz(1) by (rule up)
  have sL: "9007199254740989 / 9007199254740992 * (r0 + r1) \<le> s"
    using Ls Ls0 e r0 r1 by argo
  have sU: "s \<le> 9007199254740996 / 9007199254740992 * (r0 + r1)"
    using Us Us0 e r0 r1 by argo
  have spos: "0 < s" using sL tpos by argo
  have y: "0 \<le> y0" "0 \<le> y1" unfolding y0_def y1_def using r0 r1 spos by simp_all
  have "9007199254740989 / 9007199254740992 * (r0 + r1) / s \<le> s / s"
    using sL spos by (intro divide_right_mono) simp_all
  then have yU: "9007199254740989 / 9007199254740992 * (y0 + y1) \<le> 1"
    using spos by (simp add: y0_def y1_def add_divide_distrib)
  have "s / s \<le> 9007199254740996 / 9007199254740992 * (r0 + r1) / s"
    using sU spos by (intro divide_right_mono) simp_all
  then have yL: "1 \<le> 9007199254740996 / 9007199254740992 * (y0 + y1)"
    using spos by (simp add: y0_def y1_def add_divide_distrib)
  have y2: "y0 \<le> 2" "y1 \<le> 2" using yU y by argo+
  have g0: "fl_div r0 s = Inr x0"
    using spos fl_Inr_2 [OF y(1) y2(1)] by (simp add: fl_div_def x0_def y0_def)
  have g1: "fl_div r1 s = Inr x1"
    using spos fl_Inr_2 [OF y(2) y2(2)] by (simp add: fl_div_def x1_def y1_def)
  have Lx0: "9007199254740991 / 9007199254740992 * y0 - eta \<le> x0"
    unfolding x0_def using y(1) by (rule lo)
  have Ux0: "x0 \<le> 9007199254740993 / 9007199254740992 * y0 + eta"
    unfolding x0_def using y(1) by (rule up)
  have Lx1: "9007199254740991 / 9007199254740992 * y1 - eta \<le> x1"
    unfolding x1_def using y(2) by (rule lo)
  have Ux1: "x1 \<le> 9007199254740993 / 9007199254740992 * y1 + eta"
    unfolding x1_def using y(2) by (rule up)
  have "\<bar>x0 + x1 - 1\<bar> \<le> 1 / 1125899906842624"
    using Lx0 Ux0 Lx1 Ux1 yL yU y e' by argo
  then have bound: "\<bar>x0 + x1 - 1\<bar> \<le> 1 / 2 ^ 50" by simp
  from M0 M1 have ne: "M0 \<noteq> 0" "M1 \<noteq> 0" by simp_all
  have "ConvertX_binary64 0 2 [M0, M1] [w, 1 - w] = Inr x0"
    using ConvertX_binary64_two(1) [OF ne f0 fs0 f1 fs] g0 by simp
  moreover have "ConvertX_binary64 1 2 [M0, M1] [w, 1 - w] = Inr x1"
    using ConvertX_binary64_two(2) [OF ne f0 fs0 f1 fs] g1 by simp
  ultimately show ?thesis using bound by blast
qed

theorem ConvertX_binary64_two_components_sum_near_one_witness:
  "(1 / 2 ^ 1000 :: real) \<le> 18 \<and> (18 :: real) \<le> 2 ^ 1000 \<and> (1 / 2 ^ 1000 :: real) \<le> 117 / 2 \<and>
   (117 / 2 :: real) \<le> 2 ^ 1000 \<and> (0::real) \<le> 1 / 4 \<and> (1 / 4 :: real) \<le> 1 \<and>
   (\<exists>x0 x1. ConvertX_binary64 0 2 [18, 117 / 2] [1 / 4, 1 - 1 / 4] = Inr x0 \<and>
            ConvertX_binary64 1 2 [18, 117 / 2] [1 / 4, 1 - 1 / 4] = Inr x1 \<and>
            \<bar>x0 + x1 - 1\<bar> \<le> 1 / 2 ^ 50)"
  using ConvertX_binary64_two_components_sum_near_one [of 18 "117 / 2" "1 / 4"] by simp

end
